theory Spec2Isabelle
  imports Main "HOL-Library.Word" "HOL-Library.Sublist"
begin

section \<open>Python values used by the transcription server\<close>

text \<open>
  A Python \<open>str\<close> is a sequence of Unicode code points, so it is modelled as a list of
  natural numbers (slicing and \<open>strip\<close> count code points, not bytes). A \<open>bytes\<close>
  object is a list of 8-bit words. ASCII literals of the source are written through
  \<open>lit\<close>.
\<close>

type_synonym pystr = "nat list"
type_synonym bytes = "8 word list"

definition lit :: "string \<Rightarrow> pystr" where
  "lit s = map of_char s"

text \<open>
  The exceptions of the program: the \<open>RuntimeError\<close> raised by \<open>convert_to_wav\<close>, and
  the exceptions raised by the collaborators (\<open>OSError\<close>, \<open>wave.Error\<close>,
  \<open>UnicodeDecodeError\<close>, errors of the engine), each carrying what \<open>str(e)\<close> yields.
  All of them are instances of \<open>Exception\<close>.
\<close>

datatype py_exn = RuntimeError pystr | LibraryError pystr

fun str_exn :: "py_exn \<Rightarrow> pystr" where
  "str_exn (RuntimeError m) = m"
| "str_exn (LibraryError m) = m"

text \<open>\<open>a or b\<close> on strings: the empty string is falsy.\<close>

definition py_or :: "pystr \<Rightarrow> pystr \<Rightarrow> pystr" where
  "py_or a b = (if a \<noteq> [] then a else b)"

text \<open>\<open>str(n)\<close> for an \<open>int\<close>: decimal digits, with a sign when negative.\<close>

fun digits :: "nat \<Rightarrow> pystr" where
  "digits n = (if n < 10 then [48 + n] else digits (n div 10) @ [48 + n mod 10])"

declare digits.simps [simp del]

definition py_str_int :: "int \<Rightarrow> pystr" where
  "py_str_int i = (if i < 0 then 45 # digits (nat (- i)) else digits (nat i))"

subsection \<open>\<open>str.strip\<close> and \<open>str.join\<close>\<close>

text \<open>
  The code points that \<open>str.strip()\<close> without argument removes: those for which
  \<open>str.isspace\<close> holds.
\<close>

definition py_isspace :: "nat \<Rightarrow> bool" where
  "py_isspace c \<longleftrightarrow>
     (9 \<le> c \<and> c \<le> 13) \<or> (28 \<le> c \<and> c \<le> 32) \<or> c = 133 \<or> c = 160 \<or> c = 5760 \<or>
     (8192 \<le> c \<and> c \<le> 8202) \<or> c = 8232 \<or> c = 8233 \<or> c = 8239 \<or> c = 8287 \<or> c = 12288"

definition py_lstrip :: "pystr \<Rightarrow> pystr" where
  "py_lstrip s = dropWhile py_isspace s"

definition py_rstrip :: "pystr \<Rightarrow> pystr" where
  "py_rstrip s = rev (dropWhile py_isspace (rev s))"

definition py_strip :: "pystr \<Rightarrow> pystr" where
  "py_strip s = py_rstrip (py_lstrip s)"

fun py_join :: "pystr \<Rightarrow> pystr list \<Rightarrow> pystr" where
  "py_join sep [] = []"
| "py_join sep [x] = x"
| "py_join sep (x # y # ys) = x @ sep @ py_join sep (y # ys)"

subsection \<open>\<open>os.path.splitext\<close> (posixpath)\<close>

text \<open>
  \<open>p.rfind(c)\<close>: the highest index holding \<open>c\<close>, or \<open>-1\<close>.
\<close>

definition rfind :: "pystr \<Rightarrow> nat \<Rightarrow> int" where
  "rfind p c = (case filter (\<lambda>i. p ! i = c) (rev [0..<length p]) of
                  [] \<Rightarrow> - 1 | i # _ \<Rightarrow> int i)"

text \<open>
  \<open>genericpath._splitext\<close> with \<open>sep = '/'\<close>, no \<open>altsep\<close> and \<open>extsep = '.'\<close>: the
  extension starts at the last dot of the last path component, unless only dots precede
  that dot in the component.
\<close>

definition splitext :: "pystr \<Rightarrow> pystr \<times> pystr" where
  "splitext p =
     (let sepIndex = rfind p 47;
          dotIndex = rfind p 46
      in if dotIndex > sepIndex \<and>
            list_ex (\<lambda>i. p ! i \<noteq> 46) [nat (sepIndex + 1)..<nat dotIndex]
         then (take (nat dotIndex) p, drop (nat dotIndex) p)
         else (p, []))"

section \<open>The request, the response and the collaborators\<close>

record file_storage =
  filename :: pystr
  payload :: bytes

text \<open>\<open>request.files\<close>: the uploaded files by form field name.\<close>

record request =
  files :: "pystr \<rightharpoonup> file_storage"

datatype body = TextBody pystr | ErrorBody pystr

text \<open>
  What a call of the handler ends with: a JSON body with a status code (200 when the
  source returns the body alone), or an exception that leaves the handler uncaught.
\<close>

datatype outcome = Response body nat | Escaped py_exn

text \<open>
  The effects of the handler on the resources the specification speaks of: a temporary
  file that now exists under a name, a subprocess invoked with a command line, a
  recognition session constructed for a sample rate, a deletion attempted on a path.
\<close>

datatype event =
    TempFileCreated pystr
  | SubprocessRun "pystr list"
  | RecognizerCreated nat
  | UnlinkAttempt pystr

text \<open>\<open>subprocess.CompletedProcess\<close>, with the bytes the process left in its output file.\<close>

record completed_process =
  returncode :: int
  stderr :: bytes
  wav_out :: bytes

text \<open>
  An opened \<open>wave.Wave_read\<close>: the declared frame rate, the size of one frame in bytes
  and the sample data not read yet.
\<close>

record wave_read =
  framerate :: nat
  framesize :: nat
  pcm :: bytes

text \<open>
  The recognition engine, a black box with a session state \<open>'s\<close>:
  \<open>KaldiRecognizer(model, rate)\<close>, \<open>SetWords(True)\<close>, \<open>AcceptWaveform(data)\<close>, and the
  \<open>text\<close> entry (if any) of the JSON object that \<open>Result()\<close> and \<open>FinalResult()\<close>
  return. Each call may raise instead (for the last two also when \<open>json.loads\<close> does).
\<close>

record 's engine =
  new_recognizer :: "nat \<Rightarrow> py_exn + 's"
  set_words :: "'s \<Rightarrow> py_exn + 's"
  accept_waveform :: "'s \<Rightarrow> bytes \<Rightarrow> py_exn + (bool \<times> 's)"
  result :: "'s \<Rightarrow> py_exn + (pystr option \<times> 's)"
  final_result :: "'s \<Rightarrow> py_exn + pystr option"

text \<open>
  Everything outside the program that one request meets. \<open>tmp_stem\<close> and \<open>wav_stem\<close>
  are the directory, prefix and random part that \<open>tempfile\<close> picks for the two names;
  the \<open>_err\<close> fields say whether a file-system call raises; \<open>ffmpeg\<close> maps the command
  line and the bytes stored at the input path to the completed process (or to the
  exception of \<open>subprocess.run\<close>); \<open>decode_utf8\<close> is \<open>bytes.decode("utf-8")\<close>;
  \<open>wave_open\<close> parses the bytes stored at the path given to \<open>wave.open\<close>.
\<close>

record 's world =
  tmp_stem :: pystr
  wav_stem :: pystr
  named_temp_err :: "py_exn option"
  save_err :: "py_exn option"
  mkstemp_err :: "py_exn option"
  close_err :: "py_exn option"
  unlink_err :: "pystr \<Rightarrow> py_exn option"
  ffmpeg :: "pystr list \<Rightarrow> bytes \<Rightarrow> py_exn + completed_process"
  decode_utf8 :: "bytes \<Rightarrow> py_exn + pystr"
  wave_open :: "bytes \<Rightarrow> py_exn + wave_read"
  recognizer :: "'s engine"

text \<open>
  \<open>tempfile.NamedTemporaryFile(delete=False, suffix=s)\<close> and \<open>tempfile.mkstemp(suffix=s)\<close>
  create a file whose name is the chosen stem followed by the suffix.
\<close>

definition named_temporary_file :: "'s world \<Rightarrow> pystr \<Rightarrow> py_exn + pystr" where
  "named_temporary_file w sfx =
     (case named_temp_err w of Some e \<Rightarrow> Inl e | None \<Rightarrow> Inr (tmp_stem w @ sfx))"

definition mkstemp :: "'s world \<Rightarrow> pystr \<Rightarrow> py_exn + pystr" where
  "mkstemp w sfx =
     (case mkstemp_err w of Some e \<Rightarrow> Inl e | None \<Rightarrow> Inr (wav_stem w @ sfx))"

section \<open>The program\<close>

subsection \<open>\<open>convert_to_wav\<close>\<close>

definition ffmpeg_cmd :: "pystr \<Rightarrow> pystr \<Rightarrow> int \<Rightarrow> pystr list" where
  "ffmpeg_cmd input_path output_path sample_rate =
     [lit ''ffmpeg'', lit ''-y'', lit ''-i'', input_path,
      lit ''-ar'', py_str_int sample_rate, lit ''-ac'', lit ''1'',
      lit ''-vn'', lit ''-f'', lit ''wav'', output_path]"

text \<open>
  The result is the exception raised, or the bytes now stored at \<open>output_path\<close>;
  \<open>input_bytes\<close> are the bytes stored at \<open>input_path\<close> when the process starts. The
  effect is one run of the command; \<open>subprocess.run\<close> returns when the process has
  exited.
\<close>

definition convert_to_wav ::
  "'s world \<Rightarrow> bytes \<Rightarrow> pystr \<Rightarrow> pystr \<Rightarrow> int \<Rightarrow> (py_exn + bytes) \<times> event list" where
  "convert_to_wav w input_bytes input_path output_path sample_rate =
     (let cmd = ffmpeg_cmd input_path output_path sample_rate in
      (case ffmpeg w cmd input_bytes of
         Inl e \<Rightarrow> Inl e
       | Inr proc \<Rightarrow>
           if returncode proc \<noteq> 0
           then (case decode_utf8 w (stderr proc) of
                   Inl e \<Rightarrow> Inl e
                 | Inr s \<Rightarrow> Inl (RuntimeError (lit ''ffmpeg failed: '' @ take 2000 s)))
           else Inr (wav_out proc),
       [SubprocessRun cmd]))"

subsection \<open>The chunk loop of \<open>transcribe\<close>\<close>

text \<open>
  \<open>wf.readframes(4000)\<close> yields the next \<open>4000 * framesize\<close> bytes (fewer at the end);
  the loop stops at the first empty read. \<open>r.get('text', '')\<close> is the empty string
  when the entry is absent.
\<close>

definition get_text :: "pystr option \<Rightarrow> pystr" where
  "get_text t = (case t of None \<Rightarrow> [] | Some x \<Rightarrow> x)"

function read_loop ::
  "'s engine \<Rightarrow> nat \<Rightarrow> bytes \<Rightarrow> 's \<Rightarrow> pystr list \<Rightarrow> py_exn + ('s \<times> pystr list)" where
  "read_loop eng fsz rest rec results =
     (let data = take (4000 * fsz) rest in
      if length data = 0 then Inr (rec, results)
      else (case accept_waveform eng rec data of
              Inl e \<Rightarrow> Inl e
            | Inr (accepted, rec') \<Rightarrow>
                if accepted
                then (case result eng rec' of
                        Inl e \<Rightarrow> Inl e
                      | Inr (r, rec'') \<Rightarrow>
                          read_loop eng fsz (drop (4000 * fsz) rest) rec''
                            (results @ [get_text r]))
                else read_loop eng fsz (drop (4000 * fsz) rest) rec' results))"
  by pat_completeness auto
termination
  by (relation "measure (\<lambda>(eng, fsz, rest, rec, results). length rest)") auto

declare read_loop.simps [simp del]

subsection \<open>The assembly of the transcript\<close>

text \<open>\<open>' '.join([r for r in results if r]).strip()\<close>\<close>

definition assemble_text :: "pystr list \<Rightarrow> pystr" where
  "assemble_text results = py_strip (py_join [32] (filter (\<lambda>r. r \<noteq> []) results))"

subsection \<open>The body of the \<open>try\<close> block\<close>

text \<open>
  The \<open>results\<close> list when the final result has been appended: the loop, then
  \<open>rec.FinalResult()\<close>.
\<close>

definition collect_results :: "'s engine \<Rightarrow> wave_read \<Rightarrow> 's \<Rightarrow> py_exn + pystr list" where
  "collect_results eng wav rec1 =
     (case read_loop eng (framesize wav) (pcm wav) rec1 [] of
        Inl e \<Rightarrow> Inl e
      | Inr (rec2, results) \<Rightarrow>
          (case final_result eng rec2 of
             Inl e \<Rightarrow> Inl e
           | Inr final \<Rightarrow> Inr (results @ [get_text final])))"

definition recognise :: "'s world \<Rightarrow> bytes \<Rightarrow> (py_exn + pystr) \<times> event list" where
  "recognise w wav_bytes =
     (case wave_open w wav_bytes of
        Inl e \<Rightarrow> (Inl e, [])
      | Inr wav \<Rightarrow>
          (case new_recognizer (recognizer w) (framerate wav) of
             Inl e \<Rightarrow> (Inl e, [])
           | Inr rec0 \<Rightarrow>
               ((case set_words (recognizer w) rec0 of
                   Inl e \<Rightarrow> Inl e
                 | Inr rec1 \<Rightarrow>
                     (case collect_results (recognizer w) wav rec1 of
                        Inl e \<Rightarrow> Inl e
                      | Inr results \<Rightarrow> Inr (assemble_text results))),
                [RecognizerCreated (framerate wav)])))"

definition try_body ::
  "'s world \<Rightarrow> bytes \<Rightarrow> pystr \<Rightarrow> pystr \<Rightarrow> (py_exn + pystr) \<times> event list" where
  "try_body w input_bytes tmp_path wav_path =
     (case convert_to_wav w input_bytes tmp_path wav_path 16000 of
        (Inl e, tr) \<Rightarrow> (Inl e, tr)
      | (Inr wav_bytes, tr) \<Rightarrow>
          (case recognise w wav_bytes of (res, tr') \<Rightarrow> (res, tr @ tr')))"

subsection \<open>The \<open>finally\<close> block\<close>

text \<open>
  Each \<open>os.unlink\<close> sits in its own \<open>try\<close> with \<open>except Exception: pass\<close>. The result is
  the exception that leaves the block, if any, and the deletions attempted.
\<close>

definition try_unlink :: "'s world \<Rightarrow> pystr \<Rightarrow> py_exn option" where
  "try_unlink w p = (case unlink_err w p of Some e \<Rightarrow> None | None \<Rightarrow> None)"

definition finally_block :: "'s world \<Rightarrow> pystr \<Rightarrow> pystr \<Rightarrow> py_exn option \<times> event list" where
  "finally_block w tmp_path wav_path =
     (case try_unlink w tmp_path of
        Some e \<Rightarrow> (Some e, [UnlinkAttempt tmp_path])
      | None \<Rightarrow>
          (case try_unlink w wav_path of
             Some e \<Rightarrow> (Some e, [UnlinkAttempt tmp_path, UnlinkAttempt wav_path])
           | None \<Rightarrow> (None, [UnlinkAttempt tmp_path, UnlinkAttempt wav_path])))"

subsection \<open>\<open>transcribe\<close>\<close>

text \<open>
  The handler of \<open>POST /transcribe\<close>: the outcome and the effects in the order they
  happen. \<open>f.save(tmp.name)\<close> stores the payload at \<open>tmp_path\<close>, so the payload is what the
  transcoder finds there, and \<open>wave.open\<close> reads what the transcoder left at
  \<open>wav_path\<close>. The first four calls stand before the \<open>try\<close> statement: an exception of
  theirs leaves the handler. An exception raised by the \<open>finally\<close> block would replace
  the response.
\<close>

definition transcribe :: "'s world \<Rightarrow> request \<Rightarrow> outcome \<times> event list" where
  "transcribe w req =
     (case files req (lit ''file'') of
        None \<Rightarrow> (Response (ErrorBody (lit ''file field is required'')) 400, [])
      | Some f \<Rightarrow>
          (case named_temporary_file w (py_or (snd (splitext (filename f))) (lit ''.tmp'')) of
             Inl e \<Rightarrow> (Escaped e, [])
           | Inr tmp_path \<Rightarrow>
               (case save_err w of
                  Some e \<Rightarrow> (Escaped e, [TempFileCreated tmp_path])
                | None \<Rightarrow>
                    (case mkstemp w (lit ''.wav'') of
                       Inl e \<Rightarrow> (Escaped e, [TempFileCreated tmp_path])
                     | Inr wav_path \<Rightarrow>
                         (case close_err w of
                            Some e \<Rightarrow>
                              (Escaped e, [TempFileCreated tmp_path, TempFileCreated wav_path])
                          | None \<Rightarrow>
                              (case try_body w (payload f) tmp_path wav_path of
                                 (res, tr) \<Rightarrow>
                                   (case finally_block w tmp_path wav_path of
                                      (fin, tr') \<Rightarrow>
                                        ((case fin of
                                            Some e \<Rightarrow> Escaped e
                                          | None \<Rightarrow>
                                              (case res of
                                                 Inr text \<Rightarrow> Response (TextBody text) 200
                                               | Inl e \<Rightarrow> Response (ErrorBody (str_exn e)) 500)),
                                         [TempFileCreated tmp_path, TempFileCreated wav_path]
                                           @ tr @ tr'))))))))"

section \<open>Properties of the transcript, as the specification words them\<close>

text \<open>A doubled space: two code points U+0020 in a row.\<close>

fun double_space :: "pystr \<Rightarrow> bool" where
  "double_space (a # b # xs) \<longleftrightarrow> (a = 32 \<and> b = 32) \<or> double_space (b # xs)"
| "double_space _ \<longleftrightarrow> False"

text \<open>Whitespace at one of the two ends.\<close>

definition outer_space :: "pystr \<Rightarrow> bool" where
  "outer_space t \<longleftrightarrow> t \<noteq> [] \<and> (py_isspace (hd t) \<or> py_isspace (last t))"

text \<open>
  The transcript in the words of the specification: the fragments that are non-empty
  after trimming, joined with single spaces, then trimmed.
\<close>

definition spec_text :: "pystr list \<Rightarrow> pystr" where
  "spec_text results = py_strip (py_join [32] (filter (\<lambda>r. py_strip r \<noteq> []) results))"

text \<open>
  A fragment as the engine words it: no space at either end and no doubled space inside.
\<close>

definition tidy :: "pystr \<Rightarrow> bool" where
  "tidy r \<longleftrightarrow> r \<noteq> [] \<and> hd r \<noteq> 32 \<and> last r \<noteq> 32 \<and> \<not> double_space r"

section \<open>Example requests and collaborators\<close>

definition upload_request :: "pystr \<Rightarrow> bytes \<Rightarrow> request" where
  "upload_request name data =
     \<lparr>files = [lit ''file'' \<mapsto> \<lparr>filename = name, payload = data\<rparr>]\<rparr>"

definition empty_request :: request where
  "empty_request = \<lparr>files = Map.empty\<rparr>"

text \<open>
  An engine that follows a script: it completes a recognition unit on every chunk while
  scripted results remain, and hands them out in order; \<open>fin\<close> is its final result.
\<close>

definition scripted_engine :: "pystr option list \<Rightarrow> pystr option \<Rightarrow> (pystr option list) engine" where
  "scripted_engine script fin =
     \<lparr>new_recognizer = (\<lambda>rate. Inr script),
      set_words = (\<lambda>s. Inr s),
      accept_waveform = (\<lambda>s d. Inr (s \<noteq> [], s)),
      result = (\<lambda>s. Inr (case s of [] \<Rightarrow> None | t # _ \<Rightarrow> t, tl s)),
      final_result = (\<lambda>s. Inr fin)\<rparr>"

text \<open>
  A decoder that agrees with \<open>bytes.decode("utf-8")\<close> on ASCII input, and on the single
  byte \<open>0xff\<close>, which no UTF-8 text contains; the examples use it on such input only.
\<close>

definition invalid_start_byte :: pystr where
  "invalid_start_byte =
     [39] @ lit ''utf-8'' @ [39] @ lit '' codec can'' @ [39] @
     lit ''t decode byte 0xff in position 0: invalid start byte''"

definition example_decode :: "bytes \<Rightarrow> py_exn + pystr" where
  "example_decode b =
     (if list_all (\<lambda>x. x < 128) b then Inr (map unat b)
      else Inl (LibraryError invalid_start_byte))"

text \<open>
  A world where nothing fails: the transcoder exits with status 0 and leaves the input
  bytes as sample data of 2-byte frames at 16 kHz.
\<close>

definition world_with :: "'s engine \<Rightarrow> 's world" where
  "world_with eng =
     \<lparr>tmp_stem = lit ''/tmp/tmpk3x9'',
      wav_stem = lit ''/tmp/tmpq7w2'',
      named_temp_err = None,
      save_err = None,
      mkstemp_err = None,
      close_err = None,
      unlink_err = (\<lambda>p. None),
      ffmpeg = (\<lambda>cmd b. Inr \<lparr>returncode = 0, stderr = [], wav_out = b\<rparr>),
      decode_utf8 = example_decode,
      wave_open = (\<lambda>b. Inr \<lparr>framerate = 16000, framesize = 2, pcm = b\<rparr>),
      recognizer = eng\<rparr>"

definition example_world ::
  "pystr option list \<Rightarrow> pystr option \<Rightarrow> (pystr option list) world" where
  "example_world script fin = world_with (scripted_engine script fin)"


text \<open>The disk is full when the upload is written.\<close>

definition disk_full :: py_exn where
  "disk_full = LibraryError (lit ''[Errno 28] No space left on device'')"

definition save_fails_world :: "(pystr option list) world" where
  "save_fails_world = (example_world [] None)\<lparr>save_err := Some disk_full\<rparr>"

text \<open>No second temporary file can be made.\<close>

definition mkstemp_fails_world :: "(pystr option list) world" where
  "mkstemp_fails_world = (example_world [] None)\<lparr>mkstemp_err := Some disk_full\<rparr>"

text \<open>The transcoder exits with status 1 and the given diagnostic output.\<close>

definition ffmpeg_fails_world :: "bytes \<Rightarrow> (pystr option list) world" where
  "ffmpeg_fails_world diag =
     (example_world [] None)
       \<lparr>ffmpeg := (\<lambda>cmd b. Inr \<lparr>returncode = 1, stderr = diag, wav_out = []\<rparr>)\<rparr>"

section \<open>Basic facts about the handler\<close>

subsection \<open>The handler, block by block\<close>

text \<open>
  The \<open>finally\<close> block attempts both deletions and never raises. Once both temporary
  files exist and the descriptor is closed, the response is decided by the \<open>try\<close> block
  alone, and both deletions are attempted at the end.
\<close>

lemma finally_block_swallows:
  "finally_block w p q = (None, [UnlinkAttempt p, UnlinkAttempt q])"
  by (simp add: finally_block_def try_unlink_def split: option.splits)

lemma transcribe_past_setup:
  assumes "files req (lit ''file'') = Some f"
    and "named_temp_err w = None" and "save_err w = None"
    and "mkstemp_err w = None" and "close_err w = None"
    and "p = tmp_stem w @ py_or (snd (splitext (filename f))) (lit ''.tmp'')"
    and "q = wav_stem w @ lit ''.wav''"
  shows "transcribe w req =
           ((case fst (try_body w (payload f) p q) of
               Inr text \<Rightarrow> Response (TextBody text) 200
             | Inl e \<Rightarrow> Response (ErrorBody (str_exn e)) 500),
            [TempFileCreated p, TempFileCreated q] @ snd (try_body w (payload f) p q)
              @ [UnlinkAttempt p, UnlinkAttempt q])"
  using assms
  by (simp add: transcribe_def named_temporary_file_def mkstemp_def finally_block_swallows
      split: prod.splits)

lemma text_response_inside_try:
  assumes "files req (lit ''file'') = Some f"
    and "fst (transcribe w req) = Response (TextBody t) 200"
  shows "named_temp_err w = None \<and> save_err w = None \<and> mkstemp_err w = None \<and>
         close_err w = None \<and>
         fst (try_body w (payload f)
                (tmp_stem w @ py_or (snd (splitext (filename f))) (lit ''.tmp''))
                (wav_stem w @ lit ''.wav'')) = Inr t"
  using assms
  by (auto simp add: transcribe_def named_temporary_file_def mkstemp_def
      finally_block_swallows split: option.splits sum.splits prod.splits)

lemma py_str_int_16000: "py_str_int 16000 = lit ''16000''"
  by (simp add: py_str_int_def digits.simps lit_def)

lemma snd_convert_to_wav:
  "snd (convert_to_wav w b p q r) = [SubprocessRun (ffmpeg_cmd p q r)]"
  by (simp add: convert_to_wav_def Let_def)

lemma snd_recognise: "SubprocessRun c \<notin> set (snd (recognise w b))"
  by (simp add: recognise_def split: sum.splits)

lemma snd_try_body:
  "\<exists>rest. snd (try_body w b p q) = SubprocessRun (ffmpeg_cmd p q 16000) # rest \<and>
     (\<forall>c. SubprocessRun c \<notin> set rest)"
proof (cases "convert_to_wav w b p q 16000")
  case (Pair res tr)
  then have tr: "tr = [SubprocessRun (ffmpeg_cmd p q 16000)]"
    using snd_convert_to_wav [of w b p q 16000] by simp
  show ?thesis
  proof (cases res)
    case (Inl e)
    with Pair tr show ?thesis by (simp add: try_body_def)
  next
    case (Inr wav_bytes)
    with Pair tr show ?thesis
      using snd_recognise [of _ w wav_bytes]
      by (simp add: try_body_def split: prod.splits) (metis snd_conv)
  qed
qed

lemma fst_try_body:
  "fst (try_body w b p q) =
     (case ffmpeg w (ffmpeg_cmd p q 16000) b of
        Inl e \<Rightarrow> Inl e
      | Inr proc \<Rightarrow>
          if returncode proc \<noteq> 0
          then (case decode_utf8 w (stderr proc) of
                  Inl e \<Rightarrow> Inl e
                | Inr s \<Rightarrow> Inl (RuntimeError (lit ''ffmpeg failed: '' @ take 2000 s)))
          else fst (recognise w (wav_out proc)))"
  by (auto simp add: try_body_def convert_to_wav_def split: sum.splits prod.splits)

lemma fst_try_body_convert_fails:
  assumes "ffmpeg w (ffmpeg_cmd p q 16000) b = Inr proc" and "returncode proc \<noteq> 0"
  shows "fst (try_body w b p q) =
           (case decode_utf8 w (stderr proc) of
              Inl e \<Rightarrow> Inl e
            | Inr s \<Rightarrow> Inl (RuntimeError (lit ''ffmpeg failed: '' @ take 2000 s)))"
  using assms by (simp add: try_body_def convert_to_wav_def split: sum.splits)


lemma fst_recognise_pipeline:
  assumes "fst (recognise w wb) = Inr t"
  shows "\<exists>wav rec0 rec1 results.
           wave_open w wb = Inr wav \<and>
           new_recognizer (recognizer w) (framerate wav) = Inr rec0 \<and>
           set_words (recognizer w) rec0 = Inr rec1 \<and>
           collect_results (recognizer w) wav rec1 = Inr results \<and>
           t = assemble_text results"
  using assms by (auto simp add: recognise_def split: sum.splits)

lemma splitext_empty: "splitext [] = ([], [])"
  by (simp add: splitext_def rfind_def)

subsection \<open>Results without text\<close>

lemma assemble_text_all_empty:
  assumes "\<forall>r\<in>set results. r = []"
  shows "assemble_text results = []"
proof -
  have "filter (\<lambda>r. r \<noteq> []) results = []"
    using assms by (simp add: filter_empty_conv)
  then show ?thesis
    by (simp add: assemble_text_def py_strip_def py_lstrip_def py_rstrip_def)
qed

subsection \<open>Doubled spaces, trimming and joining\<close>

lemma double_space_Cons: "double_space ys \<Longrightarrow> double_space (x # ys)"
  by (cases ys) simp_all

lemma double_space_append_right: "double_space ys \<Longrightarrow> double_space (xs @ ys)"
  by (induction xs) (simp_all add: double_space_Cons)

lemma double_space_append_left: "double_space xs \<Longrightarrow> double_space (xs @ ys)"
  by (induction xs rule: double_space.induct) (auto simp add: double_space_Cons)

lemma double_space_append:
  assumes "xs \<noteq> []" and "ys \<noteq> []"
  shows "double_space (xs @ ys) \<longleftrightarrow>
           double_space xs \<or> double_space ys \<or> (last xs = 32 \<and> hd ys = 32)"
  using assms
proof (induction xs)
  case Nil
  then show ?case by simp
next
  case (Cons a zs)
  show ?case
  proof (cases zs)
    case Nil
    with Cons.prems show ?thesis by (cases ys) auto
  next
    case (Cons b us)
    with Cons.IH Cons.prems show ?thesis by auto
  qed
qed

lemma py_strip_decompose: "\<exists>pre post. s = pre @ py_strip s @ post"
proof -
  let ?l = "dropWhile py_isspace s"
  have "s = takeWhile py_isspace s @ ?l"
    by simp
  moreover have "?l = rev (dropWhile py_isspace (rev ?l)) @ rev (takeWhile py_isspace (rev ?l))"
    by (metis rev_append rev_rev_ident takeWhile_dropWhile_id)
  ultimately have "s = takeWhile py_isspace s @ py_strip s @ rev (takeWhile py_isspace (rev ?l))"
    by (simp add: py_strip_def py_lstrip_def py_rstrip_def)
  then show ?thesis by blast
qed

lemma py_strip_no_double_space:
  assumes "\<not> double_space s"
  shows "\<not> double_space (py_strip s)"
proof
  assume d: "double_space (py_strip s)"
  obtain pre post where "s = pre @ py_strip s @ post"
    using py_strip_decompose by blast
  then have "double_space s"
    using d double_space_append_left double_space_append_right by metis
  with assms show False by simp
qed

lemma py_strip_no_outer_space: "\<not> outer_space (py_strip s)"
proof -
  let ?l = "dropWhile py_isspace s"
  let ?r = "dropWhile py_isspace (rev ?l)"
  have st: "py_strip s = rev ?r"
    by (simp add: py_strip_def py_lstrip_def py_rstrip_def)
  show ?thesis
  proof (cases "?r = []")
    case True
    then show ?thesis by (simp add: st outer_space_def)
  next
    case False
    then have l: "\<not> py_isspace (last (rev ?r))"
      by (simp add: last_rev hd_dropWhile)
    have ne: "?l \<noteq> []"
      using False by (metis dropWhile.simps(1) rev.simps(1))
    then have hl: "\<not> py_isspace (hd ?l)"
      by (simp add: hd_dropWhile)
    obtain post where "?l = rev ?r @ post"
      by (metis rev_append rev_rev_ident takeWhile_dropWhile_id)
    then have "hd (rev ?r) = hd ?l"
      using False by (metis hd_append2 rev_is_Nil_conv)
    with hl l show ?thesis
      by (simp add: st outer_space_def)
  qed
qed

lemma tidy_join:
  assumes "\<forall>r\<in>set fs. tidy r" and "fs \<noteq> []"
  shows "tidy (py_join [32] fs)"
  using assms
proof (induction fs rule: induct_list012)
  case 1
  then show ?case by simp
next
  case (2 x)
  then show ?case by simp
next
  case (3 x y zs)
  let ?j = "py_join [32] (y # zs)"
  have j: "tidy ?j"
    using 3 by simp
  have x: "tidy x"
    using 3 by simp
  have jn: "?j \<noteq> []" and xn: "x \<noteq> []"
    using j x by (simp_all add: tidy_def)
  have a: "\<not> double_space (32 # ?j)"
    using j jn double_space_append [of "[32]" ?j] by (simp add: tidy_def)
  have "\<not> double_space (x @ 32 # ?j)"
    using x xn a double_space_append [of x "32 # ?j"] by (simp add: tidy_def)
  moreover have "hd (x @ 32 # ?j) \<noteq> 32"
    using x xn by (simp add: tidy_def)
  moreover have "last (x @ 32 # ?j) \<noteq> 32"
    using j jn by (simp add: tidy_def)
  ultimately show ?case
    by (simp add: tidy_def)
qed

lemma assemble_text_shape:
  "\<not> outer_space (assemble_text results) \<and>
   ((\<forall>r\<in>set results. r \<noteq> [] \<longrightarrow> tidy r) \<longrightarrow> \<not> double_space (assemble_text results))"
proof -
  let ?fs = "filter (\<lambda>r. r \<noteq> []) results"
  have "\<not> double_space (py_strip (py_join [32] ?fs))" if t: "\<forall>r\<in>set results. r \<noteq> [] \<longrightarrow> tidy r"
  proof (cases "?fs = []")
    case True
    then show ?thesis
      using py_strip_no_double_space [of "[]"] by simp
  next
    case False
    have "\<forall>r\<in>set ?fs. tidy r"
      using t by simp
    then have "tidy (py_join [32] ?fs)"
      using False by (rule tidy_join)
    then show ?thesis
      using py_strip_no_double_space by (simp add: tidy_def)
  qed
  then show ?thesis
    using py_strip_no_outer_space by (simp add: assemble_text_def)
qed

subsection \<open>The examples, evaluated\<close>

lemma scripted_engine_sel:
  "new_recognizer (scripted_engine sc fin) rate = Inr sc"
  "set_words (scripted_engine sc fin) s = Inr s"
  "accept_waveform (scripted_engine sc fin) s d = Inr (s \<noteq> [], s)"
  "result (scripted_engine sc fin) s = Inr (case s of [] \<Rightarrow> None | t # _ \<Rightarrow> t, tl s)"
  "final_result (scripted_engine sc fin) s = Inr fin"
  by (simp_all add: scripted_engine_def)

lemma example_world_sel:
  "tmp_stem (example_world sc fin) = lit ''/tmp/tmpk3x9''"
  "wav_stem (example_world sc fin) = lit ''/tmp/tmpq7w2''"
  "named_temp_err (example_world sc fin) = None"
  "save_err (example_world sc fin) = None"
  "mkstemp_err (example_world sc fin) = None"
  "close_err (example_world sc fin) = None"
  "ffmpeg (example_world sc fin) cmd b = Inr \<lparr>returncode = 0, stderr = [], wav_out = b\<rparr>"
  "decode_utf8 (example_world sc fin) = example_decode"
  "wave_open (example_world sc fin) b = Inr \<lparr>framerate = 16000, framesize = 2, pcm = b\<rparr>"
  "recognizer (example_world sc fin) = scripted_engine sc fin"
  by (simp_all add: example_world_def world_with_def)


lemma ffmpeg_fails_world_sel:
  "tmp_stem (ffmpeg_fails_world d) = lit ''/tmp/tmpk3x9''"
  "wav_stem (ffmpeg_fails_world d) = lit ''/tmp/tmpq7w2''"
  "named_temp_err (ffmpeg_fails_world d) = None"
  "save_err (ffmpeg_fails_world d) = None"
  "mkstemp_err (ffmpeg_fails_world d) = None"
  "close_err (ffmpeg_fails_world d) = None"
  "ffmpeg (ffmpeg_fails_world d) cmd b = Inr \<lparr>returncode = 1, stderr = d, wav_out = []\<rparr>"
  "decode_utf8 (ffmpeg_fails_world d) = example_decode"
  by (simp_all add: ffmpeg_fails_world_def example_world_def world_with_def)

lemma example_decode_replicate:
  "example_decode (replicate n 120) = Inr (replicate n 120)"
  by (simp add: example_decode_def list_all_iff)

lemma splitext_clip: "splitext (lit ''clip.webm'') = (lit ''clip'', lit ''.webm'')"
  by code_simp

lemma splitext_silence: "splitext (lit ''silence.wav'') = (lit ''silence'', lit ''.wav'')"
  by code_simp

lemma assemble_hello: "assemble_text [lit ''hello''] = lit ''hello''"
  by (simp add: assemble_text_def py_strip_def py_lstrip_def py_rstrip_def py_isspace_def lit_def)

lemma try_body_hello:
  "try_body (example_world [] (Some (lit ''hello''))) [1, 2, 3] p q =
     (Inr (lit ''hello''), [SubprocessRun (ffmpeg_cmd p q 16000), RecognizerCreated 16000])"
  by (simp add: try_body_def convert_to_wav_def recognise_def collect_results_def
      example_world_sel scripted_engine_sel read_loop.simps get_text_def assemble_hello)


lemma read_loop_three:
  "read_loop (scripted_engine [Some (lit ''hello''), None, Some (lit ''big'')] (Some (lit ''world'')))
     2 (replicate 24000 0) [Some (lit ''hello''), None, Some (lit ''big'')] [] =
   Inr ([], [lit ''hello'', [], lit ''big''])"
  by (simp add: read_loop.simps scripted_engine_sel get_text_def)

lemma collect_results_three:
  "collect_results (scripted_engine [Some (lit ''hello''), None, Some (lit ''big'')] (Some (lit ''world'')))
     \<lparr>framerate = 16000, framesize = 2, pcm = replicate 24000 0\<rparr>
     [Some (lit ''hello''), None, Some (lit ''big'')] =
   Inr [lit ''hello'', [], lit ''big'', lit ''world'']"
  by (simp add: collect_results_def read_loop_three scripted_engine_sel get_text_def)

lemma assemble_three:
  "assemble_text [lit ''hello'', [], lit ''big'', lit ''world''] = lit ''hello big world''"
  by (simp add: assemble_text_def py_strip_def py_lstrip_def py_rstrip_def py_isspace_def lit_def)

lemma transcribe_three:
  "fst (transcribe (example_world [Some (lit ''hello''), None, Some (lit ''big'')] (Some (lit ''world'')))
          (upload_request (lit ''clip.webm'') (replicate 24000 0))) =
     Response (TextBody (lit ''hello big world'')) 200"
proof -
  let ?sc = "[Some (lit ''hello''), None, Some (lit ''big'')]"
  let ?w = "example_world ?sc (Some (lit ''world''))"
  have h: "files (upload_request (lit ''clip.webm'') (replicate 24000 0)) (lit ''file'') =
      Some \<lparr>filename = lit ''clip.webm'', payload = replicate 24000 0\<rparr>"
    by (simp add: upload_request_def)
  have ok: "named_temp_err ?w = None" "save_err ?w = None" "mkstemp_err ?w = None"
    "close_err ?w = None"
    by (simp_all add: example_world_sel)
  have "fst (try_body ?w (replicate 24000 0) p q) = Inr (lit ''hello big world'')" for p q
    unfolding fst_try_body
    by (simp add: example_world_sel recognise_def scripted_engine_sel collect_results_three
        assemble_three)
  then show ?thesis
    using transcribe_past_setup [OF h ok refl refl] by simp
qed

lemma tidy_words: "tidy (lit ''hello'')" "tidy (lit ''big'')" "tidy (lit ''world'')"
  by (simp_all add: tidy_def lit_def)

lemma read_loop_quiet:
  "read_loop (scripted_engine [Some [], None] (Some [])) 2 (replicate 16000 0)
     [Some [], None] [] = Inr ([], [[], []])"
  by (simp add: read_loop.simps scripted_engine_sel get_text_def)

lemma collect_results_quiet:
  "collect_results (scripted_engine [Some [], None] (Some []))
     \<lparr>framerate = 16000, framesize = 2, pcm = replicate 16000 0\<rparr> [Some [], None] =
   Inr [[], [], []]"
  by (simp add: collect_results_def read_loop_quiet scripted_engine_sel get_text_def)

lemma read_loop_a_space:
  "read_loop (scripted_engine [Some (lit ''a''), Some (lit '' '')] (Some (lit ''b''))) 2
     (replicate 16000 0) [Some (lit ''a''), Some (lit '' '')] [] =
   Inr ([], [lit ''a'', lit '' ''])"
  by (simp add: read_loop.simps scripted_engine_sel get_text_def)

lemma assemble_a_space: "assemble_text [lit ''a'', lit '' '', lit ''b''] = lit ''a   b''"
  by (simp add: assemble_text_def py_strip_def py_lstrip_def py_rstrip_def py_isspace_def lit_def)

lemma spec_text_a_space: "spec_text [lit ''a'', lit '' '', lit ''b''] = lit ''a b''"
  by (simp add: spec_text_def py_strip_def py_lstrip_def py_rstrip_def py_isspace_def lit_def)

section \<open>Failures before the \<open>try\<close> block\<close>

text \<open>
  C1 asks that the deletion of the temporary files is attempted on every exit path once
  they exist. The handler creates the first file, writes the upload and creates the
  second file before its \<open>try\<close> statement begins. When writing the upload fails (the
  disk is full), the handler ends with that exception, the first temporary file exists,
  and no deletion has been attempted.
\<close>

theorem upload_leaks_when_save_fails:
  "transcribe save_fails_world (upload_request (lit ''clip.webm'') [1, 2, 3]) =
     (Escaped disk_full, [TempFileCreated (lit ''/tmp/tmpk3x9.webm'')])"
  by code_simp

text \<open>
  C2 asks that every error raised while the upload is persisted or the wav path is
  allocated becomes a 500 response with an \<open>error\<close> field. When \<open>tempfile.mkstemp\<close>
  raises, the exception leaves the handler instead: there is no response of the
  handler's own.
\<close>

theorem mkstemp_error_escapes:
  "fst (transcribe mkstemp_fails_world (upload_request (lit ''clip.webm'') [1, 2, 3])) =
     Escaped disk_full"
  by code_simp

section \<open>Missing upload\<close>

text \<open>
  C3: a request without the \<open>file\<close> field is answered with status 400 and the body
  \<open>{"error": "file field is required"}\<close>, and nothing else happens: no temporary file
  is created, no subprocess is run, no recognition session is constructed (the list of
  effects is empty).
\<close>

theorem missing_file_bad_request:
  assumes "files req (lit ''file'') = None"
  shows "transcribe w req = (Response (ErrorBody (lit ''file field is required'')) 400, [])"
  using assms by (simp add: transcribe_def)

theorem missing_file_bad_request_witness:
  "files empty_request (lit ''file'') = None \<and>
   transcribe (example_world [] None) empty_request =
     (Response (ErrorBody (lit ''file field is required'')) 400, [])"
  using missing_file_bad_request [of empty_request "example_world [] None"]
  by (simp add: empty_request_def)

section \<open>The transcript\<close>

text \<open>
  C4, as the code has it: a successful response comes from one run of the pipeline on the
  request's own upload: the transcoder's output for it, the wav opened from that output,
  the session constructed for its frame rate, and the \<open>results\<close> list that this session
  hands out for this wav (the results of the loop, then the final one). The \<open>text\<close> value
  is made of these results: those that are not the empty string are joined with single
  spaces and the whole is trimmed. The value therefore has no whitespace at either end. It
  has no doubled space when every non-empty result of the run is tidy, that is, has no
  space at either end and no doubled space inside.
\<close>

theorem successful_text_shape:
  assumes "fst (transcribe w req) = Response (TextBody t) 200"
  shows "\<exists>f proc wav rec0 rec1 results.
           files req (lit ''file'') = Some f \<and>
           ffmpeg w
             (ffmpeg_cmd (tmp_stem w @ py_or (snd (splitext (filename f))) (lit ''.tmp''))
                (wav_stem w @ lit ''.wav'') 16000)
             (payload f) = Inr proc \<and>
           wave_open w (wav_out proc) = Inr wav \<and>
           new_recognizer (recognizer w) (framerate wav) = Inr rec0 \<and>
           set_words (recognizer w) rec0 = Inr rec1 \<and>
           collect_results (recognizer w) wav rec1 = Inr results \<and>
           t = py_strip (py_join [32] (filter (\<lambda>r. r \<noteq> []) results)) \<and>
           \<not> outer_space t \<and>
           ((\<forall>r\<in>set results. r \<noteq> [] \<longrightarrow> tidy r) \<longrightarrow> \<not> double_space t)"
proof -
  obtain f where f: "files req (lit ''file'') = Some f"
    using assms by (cases "files req (lit ''file'')") (simp_all add: transcribe_def)
  let ?p = "tmp_stem w @ py_or (snd (splitext (filename f))) (lit ''.tmp'')"
  let ?q = "wav_stem w @ lit ''.wav''"
  have "fst (try_body w (payload f) ?p ?q) = Inr t"
    using text_response_inside_try [OF f assms] by simp
  then obtain proc where run: "ffmpeg w (ffmpeg_cmd ?p ?q 16000) (payload f) = Inr proc"
    and "returncode proc = 0" and "fst (recognise w (wav_out proc)) = Inr t"
    unfolding fst_try_body by (auto split: sum.splits if_splits)
  then obtain wav rec0 rec1 results
    where o: "wave_open w (wav_out proc) = Inr wav"
      and n: "new_recognizer (recognizer w) (framerate wav) = Inr rec0"
      and s: "set_words (recognizer w) rec0 = Inr rec1"
      and c: "collect_results (recognizer w) wav rec1 = Inr results"
      and t: "t = assemble_text results"
    using fst_recognise_pipeline by blast
  have "t = py_strip (py_join [32] (filter (\<lambda>r. r \<noteq> []) results))"
    using t by (simp add: assemble_text_def)
  moreover have "\<not> outer_space t"
    and "(\<forall>r\<in>set results. r \<noteq> [] \<longrightarrow> tidy r) \<longrightarrow> \<not> double_space t"
    using t assemble_text_shape [of results] by simp_all
  ultimately show ?thesis
    using f run o n s c by blast
qed

theorem successful_text_shape_witness:
  "fst (transcribe (example_world [Some (lit ''hello''), None, Some (lit ''big'')] (Some (lit ''world'')))
          (upload_request (lit ''clip.webm'') (replicate 24000 0))) =
     Response (TextBody (lit ''hello big world'')) 200 \<and>
   collect_results (scripted_engine [Some (lit ''hello''), None, Some (lit ''big'')] (Some (lit ''world'')))
     \<lparr>framerate = 16000, framesize = 2, pcm = replicate 24000 0\<rparr>
     [Some (lit ''hello''), None, Some (lit ''big'')] =
     Inr [lit ''hello'', [], lit ''big'', lit ''world''] \<and>
   tidy (lit ''hello'') \<and> tidy (lit ''big'') \<and> tidy (lit ''world'') \<and>
   lit ''hello big world'' =
     py_strip (py_join [32] (filter (\<lambda>r. r \<noteq> []) [lit ''hello'', [], lit ''big'', lit ''world''])) \<and>
   \<not> outer_space (lit ''hello big world'') \<and>
   \<not> double_space (lit ''hello big world'')"
proof -
  let ?sc = "[Some (lit ''hello''), None, Some (lit ''big'')]"
  let ?w = "example_world ?sc (Some (lit ''world''))"
  let ?req = "upload_request (lit ''clip.webm'') (replicate 24000 0)"
  let ?t = "lit ''hello big world''"
  obtain f proc wav rec0 rec1 results
    where f: "files ?req (lit ''file'') = Some f"
      and run: "ffmpeg ?w
             (ffmpeg_cmd (tmp_stem ?w @ py_or (snd (splitext (filename f))) (lit ''.tmp''))
                (wav_stem ?w @ lit ''.wav'') 16000)
             (payload f) = Inr proc"
      and o: "wave_open ?w (wav_out proc) = Inr wav"
      and n: "new_recognizer (recognizer ?w) (framerate wav) = Inr rec0"
      and s: "set_words (recognizer ?w) rec0 = Inr rec1"
      and c: "collect_results (recognizer ?w) wav rec1 = Inr results"
      and t: "?t = py_strip (py_join [32] (filter (\<lambda>r. r \<noteq> []) results))"
      and e: "\<not> outer_space ?t"
      and d: "(\<forall>r\<in>set results. r \<noteq> [] \<longrightarrow> tidy r) \<longrightarrow> \<not> double_space ?t"
    using successful_text_shape [OF transcribe_three] by blast
  have "payload f = replicate 24000 0"
    using f by (auto simp add: upload_request_def)
  then have "wav_out proc = replicate 24000 0"
    using run by (auto simp add: example_world_sel)
  then have "wav = \<lparr>framerate = 16000, framesize = 2, pcm = replicate 24000 0\<rparr>"
    using o by (simp add: example_world_sel)
  moreover have "rec1 = ?sc"
    using n s by (simp add: example_world_sel scripted_engine_sel)
  ultimately have r: "results = [lit ''hello'', [], lit ''big'', lit ''world'']"
    using c by (simp add: example_world_sel collect_results_three)
  have "\<not> double_space ?t"
    using d r tidy_words by simp
  then show ?thesis
    using transcribe_three collect_results_three tidy_words t r e by simp
qed


text \<open>
  The claim as worded drops the results that are empty after trimming and promises a value
  without doubled spaces for every sequence of results. The code keeps a result that
  consists of whitespace: with the results \<open>'a'\<close>, \<open>' '\<close> and \<open>'b'\<close> the response carries
  \<open>'a   b'\<close>, where the claim's wording gives \<open>'a b'\<close>.
\<close>

theorem whitespace_fragment_counterexample:
  "fst (transcribe (example_world [Some (lit ''a''), Some (lit '' '')] (Some (lit ''b'')))
          (upload_request (lit ''clip.webm'') (replicate 16000 0))) =
     Response (TextBody (lit ''a   b'')) 200 \<and>
   collect_results (scripted_engine [Some (lit ''a''), Some (lit '' '')] (Some (lit ''b'')))
     \<lparr>framerate = 16000, framesize = 2, pcm = replicate 16000 0\<rparr>
     [Some (lit ''a''), Some (lit '' '')] =
     Inr [lit ''a'', lit '' '', lit ''b''] \<and>
   spec_text [lit ''a'', lit '' '', lit ''b''] = lit ''a b'' \<and>
   lit ''a   b'' \<noteq> lit ''a b'' \<and>
   double_space (lit ''a   b'')"
proof -
  let ?sc = "[Some (lit ''a''), Some (lit '' '')]"
  let ?w = "example_world ?sc (Some (lit ''b''))"
  let ?f = "\<lparr>filename = lit ''clip.webm'', payload = replicate 16000 0\<rparr>"
  have c: "collect_results (scripted_engine ?sc (Some (lit ''b'')))
      \<lparr>framerate = 16000, framesize = 2, pcm = replicate 16000 0\<rparr> ?sc =
      Inr [lit ''a'', lit '' '', lit ''b'']"
    by (simp add: collect_results_def read_loop_a_space scripted_engine_sel get_text_def)
  have h: "files (upload_request (lit ''clip.webm'') (replicate 16000 0)) (lit ''file'') = Some ?f"
    by (simp add: upload_request_def)
  have ok: "named_temp_err ?w = None" "save_err ?w = None" "mkstemp_err ?w = None"
    "close_err ?w = None"
    by (simp_all add: example_world_sel)
  have "fst (try_body ?w (replicate 16000 0) p q) = Inr (lit ''a   b'')" for p q
    unfolding fst_try_body
    by (simp add: example_world_sel recognise_def scripted_engine_sel c assemble_a_space)
  then have r: "fst (transcribe ?w (upload_request (lit ''clip.webm'') (replicate 16000 0))) =
      Response (TextBody (lit ''a   b'')) 200"
    using transcribe_past_setup [OF h ok refl refl] by simp
  have d: "double_space (lit ''a   b'')" and n: "lit ''a   b'' \<noteq> lit ''a b''"
    by (simp_all add: lit_def)
  from r c spec_text_a_space n d show ?thesis by simp
qed


section \<open>A failing transcoder\<close>

text \<open>
  What a non-zero exit status of the transcoder leads to, in a request that reached the
  transcoding step: the response is 500 with an \<open>error\<close> string. When the diagnostic output
  decodes as UTF-8, that string is \<open>ffmpeg failed: \<close> followed by the first 2000 characters
  of the decoded output, at most 2015 characters in all; when it does not decode, the
  string is the message of the decoder's exception.
\<close>

lemma transcoder_failure_reported:
  assumes "files req (lit ''file'') = Some f"
    and "named_temp_err w = None" and "save_err w = None"
    and "mkstemp_err w = None" and "close_err w = None"
    and "p = tmp_stem w @ py_or (snd (splitext (filename f))) (lit ''.tmp'')"
    and "q = wav_stem w @ lit ''.wav''"
    and "ffmpeg w (ffmpeg_cmd p q 16000) (payload f) = Inr proc"
    and "returncode proc \<noteq> 0"
  shows "\<exists>msg. fst (transcribe w req) = Response (ErrorBody msg) 500 \<and>
           (case decode_utf8 w (stderr proc) of
              Inr s \<Rightarrow> msg = lit ''ffmpeg failed: '' @ take 2000 s \<and> length msg \<le> 2015
            | Inl e \<Rightarrow> msg = str_exn e)"
proof -
  have "length (lit ''ffmpeg failed: '') = 15"
    by (simp add: lit_def)
  then show ?thesis
    using transcribe_past_setup [OF assms(1-7)] fst_try_body_convert_fails [OF assms(8,9)]
    by (simp split: sum.splits)
qed

lemma long_diagnostics_are_cut:
  "files (upload_request (lit ''clip.webm'') [1, 2, 3]) (lit ''file'') =
     Some \<lparr>filename = lit ''clip.webm'', payload = [1, 2, 3]\<rparr> \<and>
   ffmpeg (ffmpeg_fails_world (replicate 2500 120))
     (ffmpeg_cmd (lit ''/tmp/tmpk3x9.webm'') (lit ''/tmp/tmpq7w2.wav'') 16000) [1, 2, 3] =
     Inr \<lparr>returncode = 1, stderr = replicate 2500 120, wav_out = []\<rparr> \<and>
   fst (transcribe (ffmpeg_fails_world (replicate 2500 120))
          (upload_request (lit ''clip.webm'') [1, 2, 3])) =
     Response (ErrorBody (lit ''ffmpeg failed: '' @ replicate 2000 120)) 500"
proof -
  let ?f = "\<lparr>filename = lit ''clip.webm'', payload = [1, 2, 3]\<rparr>"
  let ?w = "ffmpeg_fails_world (replicate 2500 120)"
  let ?p = "lit ''/tmp/tmpk3x9.webm''" and ?q = "lit ''/tmp/tmpq7w2.wav''"
  let ?proc = "\<lparr>returncode = 1, stderr = replicate 2500 120, wav_out = []\<rparr>"
  have h1: "files (upload_request (lit ''clip.webm'') [1, 2, 3]) (lit ''file'') = Some ?f"
    by (simp add: upload_request_def)
  have h2: "named_temp_err ?w = None" and h3: "save_err ?w = None"
    and h4: "mkstemp_err ?w = None" and h5: "close_err ?w = None"
    by (simp_all add: ffmpeg_fails_world_sel)
  have h6: "?p = tmp_stem ?w @ py_or (snd (splitext (filename ?f))) (lit ''.tmp'')"
    by (simp add: ffmpeg_fails_world_sel py_or_def splitext_clip) (simp add: lit_def)
  have h7: "?q = wav_stem ?w @ lit ''.wav''"
    by (simp add: ffmpeg_fails_world_sel lit_def)
  have h8: "ffmpeg ?w (ffmpeg_cmd ?p ?q 16000) (payload ?f) = Inr ?proc"
    by (simp add: ffmpeg_fails_world_sel)
  have h9: "returncode ?proc \<noteq> 0"
    by simp
  show ?thesis
    using h1 h8 transcoder_failure_reported [OF h1 h2 h3 h4 h5 h6 h7 h8 h9]
    by (auto simp add: ffmpeg_fails_world_sel example_decode_replicate)
qed

text \<open>
  C5 asks that a non-zero exit status always ends in the conversion error, whose message
  carries the first characters of the diagnostic output. Line 46 builds that message with
  \<open>proc.stderr.decode("utf-8")\<close>, which is strict. When the transcoder exits with status 1
  and its diagnostic output is the single byte \<open>0xff\<close>, the decoder raises while the
  message is being built: \<open>convert_to_wav\<close> ends with the decoder's exception, no
  conversion error is raised, and the \<open>error\<close> string of the 500 response does not begin
  with \<open>ffmpeg failed: \<close>.
\<close>

theorem undecodable_stderr_hides_conversion_error:
  "fst (convert_to_wav (ffmpeg_fails_world [255]) [1, 2, 3]
          (lit ''/tmp/tmpk3x9.webm'') (lit ''/tmp/tmpq7w2.wav'') 16000) =
     Inl (LibraryError invalid_start_byte) \<and>
   fst (transcribe (ffmpeg_fails_world [255]) (upload_request (lit ''clip.webm'') [1, 2, 3])) =
     Response (ErrorBody invalid_start_byte) 500 \<and>
   \<not> prefix (lit ''ffmpeg failed: '') invalid_start_byte"
proof -
  let ?f = "\<lparr>filename = lit ''clip.webm'', payload = [1, 2, 3]\<rparr>"
  let ?w = "ffmpeg_fails_world [255]"
  let ?p = "lit ''/tmp/tmpk3x9.webm''" and ?q = "lit ''/tmp/tmpq7w2.wav''"
  have d: "example_decode [255] = Inl (LibraryError invalid_start_byte)"
    by (simp add: example_decode_def)
  have c: "fst (convert_to_wav ?w [1, 2, 3] ?p ?q 16000) = Inl (LibraryError invalid_start_byte)"
    by (simp add: convert_to_wav_def ffmpeg_fails_world_sel d)
  have h1: "files (upload_request (lit ''clip.webm'') [1, 2, 3]) (lit ''file'') = Some ?f"
    by (simp add: upload_request_def)
  have h6: "?p = tmp_stem ?w @ py_or (snd (splitext (filename ?f))) (lit ''.tmp'')"
    by (simp add: ffmpeg_fails_world_sel py_or_def splitext_clip) (simp add: lit_def)
  have h7: "?q = wav_stem ?w @ lit ''.wav''"
    by (simp add: ffmpeg_fails_world_sel lit_def)
  have t: "fst (try_body ?w [1, 2, 3] ?p ?q) = Inl (LibraryError invalid_start_byte)"
    using c by (auto simp add: try_body_def split: prod.splits sum.splits)
  have r: "fst (transcribe ?w (upload_request (lit ''clip.webm'') [1, 2, 3])) =
      Response (ErrorBody invalid_start_byte) 500"
    using transcribe_past_setup [OF h1 _ _ _ _ h6 h7] t
    by (simp add: ffmpeg_fails_world_sel)
  have n: "\<not> prefix (lit ''ffmpeg failed: '') invalid_start_byte"
    by (simp add: lit_def invalid_start_byte_def)
  from c r n show ?thesis by simp
qed

section \<open>Audio without speech\<close>

text \<open>
  C6: take a request whose pipeline runs without an exception: the transcoder exits with
  status 0, the wav opens, the session is constructed, and the session hands out the
  \<open>results\<close> list for this wav. An entry of that list is the \<open>text\<close> of one result, or the
  empty string when the result has no \<open>text\<close>. When every entry is the empty string, the
  response is 200 with \<open>text\<close> equal to the empty string. This holds for any engine and any
  amount of sample data, none at all included.
\<close>

theorem silent_audio_gives_empty_text:
  assumes "files req (lit ''file'') = Some f"
    and "named_temp_err w = None" and "save_err w = None"
    and "mkstemp_err w = None" and "close_err w = None"
    and "p = tmp_stem w @ py_or (snd (splitext (filename f))) (lit ''.tmp'')"
    and "q = wav_stem w @ lit ''.wav''"
    and "ffmpeg w (ffmpeg_cmd p q 16000) (payload f) = Inr proc"
    and "returncode proc = 0"
    and "wave_open w (wav_out proc) = Inr wav"
    and "new_recognizer (recognizer w) (framerate wav) = Inr rec0"
    and "set_words (recognizer w) rec0 = Inr rec1"
    and "collect_results (recognizer w) wav rec1 = Inr results"
    and "\<forall>r\<in>set results. r = []"
  shows "fst (transcribe w req) = Response (TextBody []) 200"
proof -
  have "fst (recognise w (wav_out proc)) = Inr []"
    using assms(10-13) assemble_text_all_empty [OF assms(14)] by (simp add: recognise_def)
  then have "fst (try_body w (payload f) p q) = Inr []"
    using assms(8,9) by (simp add: fst_try_body)
  then show ?thesis
    using transcribe_past_setup [OF assms(1-7)] by simp
qed

theorem silent_audio_gives_empty_text_witness:
  "files (upload_request (lit ''silence.wav'') (replicate 16000 0)) (lit ''file'') =
     Some \<lparr>filename = lit ''silence.wav'', payload = replicate 16000 0\<rparr> \<and>
   ffmpeg (example_world [Some [], None] (Some []))
     (ffmpeg_cmd (lit ''/tmp/tmpk3x9.wav'') (lit ''/tmp/tmpq7w2.wav'') 16000)
     (replicate 16000 0) =
     Inr \<lparr>returncode = 0, stderr = [], wav_out = replicate 16000 0\<rparr> \<and>
   wave_open (example_world [Some [], None] (Some [])) (replicate 16000 0) =
     Inr \<lparr>framerate = 16000, framesize = 2, pcm = replicate 16000 0\<rparr> \<and>
   collect_results (recognizer (example_world [Some [], None] (Some [])))
     \<lparr>framerate = 16000, framesize = 2, pcm = replicate 16000 0\<rparr> [Some [], None] =
     Inr [[], [], []] \<and>
   fst (transcribe (example_world [Some [], None] (Some []))
          (upload_request (lit ''silence.wav'') (replicate 16000 0))) =
     Response (TextBody []) 200"
proof -
  let ?f = "\<lparr>filename = lit ''silence.wav'', payload = replicate 16000 0\<rparr>"
  let ?sc = "[Some [], None]"
  let ?w = "example_world ?sc (Some [])"
  let ?p = "lit ''/tmp/tmpk3x9.wav''" and ?q = "lit ''/tmp/tmpq7w2.wav''"
  let ?proc = "\<lparr>returncode = 0, stderr = [], wav_out = replicate 16000 0\<rparr>"
  let ?wav = "\<lparr>framerate = 16000, framesize = 2, pcm = replicate 16000 0\<rparr>"
  have h1: "files (upload_request (lit ''silence.wav'') (replicate 16000 0)) (lit ''file'') =
      Some ?f"
    by (simp add: upload_request_def)
  have h2: "named_temp_err ?w = None" and h3: "save_err ?w = None"
    and h4: "mkstemp_err ?w = None" and h5: "close_err ?w = None"
    by (simp_all add: example_world_sel)
  have h6: "?p = tmp_stem ?w @ py_or (snd (splitext (filename ?f))) (lit ''.tmp'')"
    by (simp add: example_world_sel py_or_def splitext_silence) (simp add: lit_def)
  have h7: "?q = wav_stem ?w @ lit ''.wav''"
    by (simp add: example_world_sel lit_def)
  have h8: "ffmpeg ?w (ffmpeg_cmd ?p ?q 16000) (payload ?f) = Inr ?proc"
    by (simp add: example_world_sel)
  have h9: "returncode ?proc = 0"
    by simp
  have h10: "wave_open ?w (wav_out ?proc) = Inr ?wav"
    by (simp add: example_world_sel)
  have h11: "new_recognizer (recognizer ?w) (framerate ?wav) = Inr ?sc"
    by (simp add: example_world_sel scripted_engine_sel)
  have h12: "set_words (recognizer ?w) ?sc = Inr ?sc"
    by (simp add: example_world_sel scripted_engine_sel)
  have h13: "collect_results (recognizer ?w) ?wav ?sc = Inr [[], [], []]"
    by (simp add: example_world_sel collect_results_quiet)
  have h14: "\<forall>r\<in>set [[], [], []::pystr]. r = []"
    by simp
  show ?thesis
    using h1 h8 h10 h13
      silent_audio_gives_empty_text [OF h1 h2 h3 h4 h5 h6 h7 h8 h9 h10 h11 h12 h13 h14]
    by simp
qed


section \<open>The same audio twice\<close>




section \<open>The transcoder call\<close>

text \<open>
  C8: in every request that reaches the transcoding step (both temporary files exist), the
  effects begin with the two files and one run of
  \<open>ffmpeg -y -i <input temp path> -ar 16000 -ac 1 -vn -f wav <output wav path>\<close>, and no
  other subprocess is run afterwards. The run is a call of \<open>subprocess.run\<close>, whose
  completed process the handler inspects before it goes on.
\<close>

theorem transcoder_invoked_once:
  assumes "files req (lit ''file'') = Some f"
    and "named_temp_err w = None" and "save_err w = None"
    and "mkstemp_err w = None" and "close_err w = None"
    and "p = tmp_stem w @ py_or (snd (splitext (filename f))) (lit ''.tmp'')"
    and "q = wav_stem w @ lit ''.wav''"
  shows "\<exists>rest. snd (transcribe w req) =
            [TempFileCreated p, TempFileCreated q,
             SubprocessRun [lit ''ffmpeg'', lit ''-y'', lit ''-i'', p,
                            lit ''-ar'', lit ''16000'', lit ''-ac'', lit ''1'',
                            lit ''-vn'', lit ''-f'', lit ''wav'', q]] @ rest \<and>
          (\<forall>c. SubprocessRun c \<notin> set rest)"
proof -
  obtain rest where r: "snd (try_body w (payload f) p q) = SubprocessRun (ffmpeg_cmd p q 16000) # rest"
    and n: "\<forall>c. SubprocessRun c \<notin> set rest"
    using snd_try_body by blast
  have "snd (transcribe w req) =
      [TempFileCreated p, TempFileCreated q, SubprocessRun (ffmpeg_cmd p q 16000)]
        @ (rest @ [UnlinkAttempt p, UnlinkAttempt q])"
    using transcribe_past_setup [OF assms] r by simp
  moreover have "\<forall>c. SubprocessRun c \<notin> set (rest @ [UnlinkAttempt p, UnlinkAttempt q])"
    using n by simp
  ultimately show ?thesis
    unfolding ffmpeg_cmd_def py_str_int_16000 by blast
qed

theorem transcoder_invoked_once_witness:
  "files (upload_request (lit ''clip.webm'') [1, 2, 3]) (lit ''file'') =
     Some \<lparr>filename = lit ''clip.webm'', payload = [1, 2, 3]\<rparr> \<and>
   named_temp_err (example_world [] None) = None \<and>
   save_err (example_world [] None) = None \<and>
   mkstemp_err (example_world [] None) = None \<and>
   close_err (example_world [] None) = None \<and>
   (\<exists>rest. snd (transcribe (example_world [] None)
                  (upload_request (lit ''clip.webm'') [1, 2, 3])) =
            [TempFileCreated (lit ''/tmp/tmpk3x9.webm''),
             TempFileCreated (lit ''/tmp/tmpq7w2.wav''),
             SubprocessRun [lit ''ffmpeg'', lit ''-y'', lit ''-i'', lit ''/tmp/tmpk3x9.webm'',
                            lit ''-ar'', lit ''16000'', lit ''-ac'', lit ''1'',
                            lit ''-vn'', lit ''-f'', lit ''wav'', lit ''/tmp/tmpq7w2.wav'']]
              @ rest \<and>
          (\<forall>c. SubprocessRun c \<notin> set rest))"
proof -
  let ?f = "\<lparr>filename = lit ''clip.webm'', payload = [1, 2, 3]\<rparr>"
  let ?req = "upload_request (lit ''clip.webm'') [1, 2, 3]"
  let ?w = "example_world [] None"
  have h1: "files ?req (lit ''file'') = Some ?f"
    by (simp add: upload_request_def)
  have h2: "named_temp_err ?w = None" and h3: "save_err ?w = None"
    and h4: "mkstemp_err ?w = None" and h5: "close_err ?w = None"
    by (simp_all add: example_world_def world_with_def)
  have h6: "lit ''/tmp/tmpk3x9.webm'' =
      tmp_stem ?w @ py_or (snd (splitext (filename ?f))) (lit ''.tmp'')"
    by code_simp
  have h7: "lit ''/tmp/tmpq7w2.wav'' = wav_stem ?w @ lit ''.wav''"
    by code_simp
  show ?thesis
    using h1 h2 h3 h4 h5 transcoder_invoked_once [OF h1 h2 h3 h4 h5 h6 h7] by blast
qed

section \<open>The name of the input file\<close>

text \<open>
  C9: the first effect of a request with a \<open>file\<close> field is the creation of the temporary
  input file. When \<open>os.path.splitext\<close> finds a non-empty extension in the declared
  filename, the name of that file ends with the extension; when it finds none, the name
  ends with \<open>.tmp\<close>.
\<close>

theorem temp_name_keeps_extension:
  assumes "files req (lit ''file'') = Some f" and "named_temp_err w = None"
  shows "\<exists>p rest. snd (transcribe w req) = TempFileCreated p # rest \<and>
           (snd (splitext (filename f)) \<noteq> [] \<longrightarrow> suffix (snd (splitext (filename f))) p) \<and>
           (snd (splitext (filename f)) = [] \<longrightarrow> suffix (lit ''.tmp'') p)"
  using assms
  by (auto simp add: transcribe_def named_temporary_file_def mkstemp_def py_or_def
      finally_block_swallows suffix_def split: option.splits sum.splits prod.splits)

theorem temp_name_keeps_extension_witness:
  "files (upload_request (lit ''clip.webm'') [1, 2, 3]) (lit ''file'') =
     Some \<lparr>filename = lit ''clip.webm'', payload = [1, 2, 3]\<rparr> \<and>
   named_temp_err (example_world [] None) = None \<and>
   snd (splitext (lit ''clip.webm'')) = lit ''.webm'' \<and>
   (\<exists>p rest. snd (transcribe (example_world [] None)
                   (upload_request (lit ''clip.webm'') [1, 2, 3])) = TempFileCreated p # rest \<and>
      suffix (lit ''.webm'') p)"
proof -
  let ?f = "\<lparr>filename = lit ''clip.webm'', payload = [1, 2, 3]\<rparr>"
  have h1: "files (upload_request (lit ''clip.webm'') [1, 2, 3]) (lit ''file'') = Some ?f"
    by (simp add: upload_request_def)
  have h2: "named_temp_err (example_world [] None) = None"
    by (simp add: example_world_sel)
  have h3: "snd (splitext (lit ''clip.webm'')) = lit ''.webm''"
    by code_simp
  have h4: "lit ''.webm'' \<noteq> []"
    by (simp add: lit_def)
  show ?thesis
    using h1 h2 h3 h4 temp_name_keeps_extension [OF h1 h2] by auto
qed

section \<open>An upload with an empty filename\<close>

text \<open>
  C10: a request whose \<open>file\<close> field is present with the empty string as filename is never
  answered with status 400. Its upload is written to a temporary file whose name ends with
  \<open>.tmp\<close>, and once both temporary files exist the whole pipeline runs on them: the
  response is 200 with the transcript or 500 with the error of the \<open>try\<close> block.
\<close>

theorem empty_filename_accepted:
  assumes "files req (lit ''file'') = Some f" and "filename f = []"
  shows "(\<forall>b. fst (transcribe w req) \<noteq> Response b 400) \<and>
         (named_temp_err w = None \<longrightarrow>
            (\<exists>rest. snd (transcribe w req) = TempFileCreated (tmp_stem w @ lit ''.tmp'') # rest)) \<and>
         (named_temp_err w = None \<and> save_err w = None \<and> mkstemp_err w = None \<and>
          close_err w = None \<longrightarrow>
            transcribe w req =
              ((case fst (try_body w (payload f) (tmp_stem w @ lit ''.tmp'')
                            (wav_stem w @ lit ''.wav'')) of
                  Inr text \<Rightarrow> Response (TextBody text) 200
                | Inl e \<Rightarrow> Response (ErrorBody (str_exn e)) 500),
               [TempFileCreated (tmp_stem w @ lit ''.tmp''),
                TempFileCreated (wav_stem w @ lit ''.wav'')]
                 @ snd (try_body w (payload f) (tmp_stem w @ lit ''.tmp'')
                          (wav_stem w @ lit ''.wav''))
                 @ [UnlinkAttempt (tmp_stem w @ lit ''.tmp''),
                    UnlinkAttempt (wav_stem w @ lit ''.wav'')]))"
proof -
  have sfx: "py_or (snd (splitext (filename f))) (lit ''.tmp'') = lit ''.tmp''"
    using assms(2) by (simp add: splitext_empty py_or_def)
  have a: "\<forall>b. fst (transcribe w req) \<noteq> Response b 400"
    using assms(1)
    by (auto simp add: transcribe_def named_temporary_file_def mkstemp_def
        finally_block_swallows split: option.splits sum.splits prod.splits)
  have b: "named_temp_err w = None \<longrightarrow>
      (\<exists>rest. snd (transcribe w req) = TempFileCreated (tmp_stem w @ lit ''.tmp'') # rest)"
    using assms(1) sfx
    by (auto simp add: transcribe_def named_temporary_file_def mkstemp_def
        finally_block_swallows split: option.splits sum.splits prod.splits)
  have c: "named_temp_err w = None \<and> save_err w = None \<and> mkstemp_err w = None \<and>
          close_err w = None \<longrightarrow>
            transcribe w req =
              ((case fst (try_body w (payload f) (tmp_stem w @ lit ''.tmp'')
                            (wav_stem w @ lit ''.wav'')) of
                  Inr text \<Rightarrow> Response (TextBody text) 200
                | Inl e \<Rightarrow> Response (ErrorBody (str_exn e)) 500),
               [TempFileCreated (tmp_stem w @ lit ''.tmp''),
                TempFileCreated (wav_stem w @ lit ''.wav'')]
                 @ snd (try_body w (payload f) (tmp_stem w @ lit ''.tmp'')
                          (wav_stem w @ lit ''.wav''))
                 @ [UnlinkAttempt (tmp_stem w @ lit ''.tmp''),
                    UnlinkAttempt (wav_stem w @ lit ''.wav'')])"
    using transcribe_past_setup [OF assms(1), of w "tmp_stem w @ lit ''.tmp''"
        "wav_stem w @ lit ''.wav''"] sfx
    by simp
  from a b c show ?thesis by blast
qed

theorem empty_filename_accepted_witness:
  "files (upload_request [] [1, 2, 3]) (lit ''file'') =
     Some \<lparr>filename = [], payload = [1, 2, 3]\<rparr> \<and>
   filename \<lparr>filename = [], payload = [1, 2, 3]\<rparr> = [] \<and>
   transcribe (example_world [] (Some (lit ''hello''))) (upload_request [] [1, 2, 3]) =
     (Response (TextBody (lit ''hello'')) 200,
      [TempFileCreated (lit ''/tmp/tmpk3x9.tmp''), TempFileCreated (lit ''/tmp/tmpq7w2.wav''),
       SubprocessRun (ffmpeg_cmd (lit ''/tmp/tmpk3x9.tmp'') (lit ''/tmp/tmpq7w2.wav'') 16000),
       RecognizerCreated 16000,
       UnlinkAttempt (lit ''/tmp/tmpk3x9.tmp''), UnlinkAttempt (lit ''/tmp/tmpq7w2.wav'')])"
proof -
  let ?f = "\<lparr>filename = [], payload = [1, 2, 3]\<rparr>"
  let ?w = "example_world [] (Some (lit ''hello''))"
  have h1: "files (upload_request [] [1, 2, 3]) (lit ''file'') = Some ?f"
    by (simp add: upload_request_def)
  have h2: "filename ?f = []"
    by simp
  have ok: "named_temp_err ?w = None \<and> save_err ?w = None \<and> mkstemp_err ?w = None \<and>
      close_err ?w = None"
    by (simp add: example_world_sel)
  have s: "tmp_stem ?w @ lit ''.tmp'' = lit ''/tmp/tmpk3x9.tmp''"
    "wav_stem ?w @ lit ''.wav'' = lit ''/tmp/tmpq7w2.wav''"
    by (simp_all add: example_world_sel lit_def)
  show ?thesis
    using h1 h2 ok empty_filename_accepted [OF h1 h2, of ?w] s
    by (simp add: try_body_hello)
qed

end
